theory Spec2Isabelle
  imports Main
begin

section \<open>Python values and the builtins the actions module calls\<close>

text \<open>
  The module \<^verbatim>\<open>subiquity/models/actions.py\<close> is dynamically typed: every argument of
  a constructor may be any Python object. The embedding keeps the values the module
  can tell apart: \<^verbatim>\<open>None\<close>, booleans, integers, strings and lists. A string is a list of
  characters, one \<open>char\<close> per code point (code points below 256). Floating-point
  numbers, dictionaries as values and user-defined objects other than the action
  classes are outside this value universe. Integers are unbounded, as in Python; the
  limit recent interpreters put on the number of digits \<^verbatim>\<open>int\<close> and \<^verbatim>\<open>str\<close> convert is
  not modelled.
\<close>

datatype pyval =
    PNone
  | PBool bool
  | PInt int
  | PStr string
  | PList "pyval list"

text \<open>The exceptions the module can raise, directly or through a builtin.\<close>

datatype error =
    Exception string
  | TypeError
  | ValueError
  | AttributeError
  | KeyError

subsection \<open>\<^verbatim>\<open>str\<close> and \<^verbatim>\<open>repr\<close>\<close>

definition digit_char :: "nat \<Rightarrow> char" where
  "digit_char n = ''0123456789abcdef'' ! n"

fun str_nat :: "nat \<Rightarrow> string" where
  "str_nat n = (if n < 10 then [digit_char n] else str_nat (n div 10) @ [digit_char (n mod 10)])"

declare str_nat.simps [simp del]

definition str_int :: "int \<Rightarrow> string" where
  "str_int i = (if i < 0 then CHR ''-'' # str_nat (nat (- i)) else str_nat (nat i))"

text \<open>
  \<^verbatim>\<open>repr\<close> of a string: single quotes, unless the string holds a single quote and no
  double quote; the quote character and the backslash are escaped, tab, newline and
  carriage return get their letter, every other non-printable code point is
  \<^verbatim>\<open>\xNN\<close>.
\<close>

definition printable :: "char \<Rightarrow> bool" where
  "printable c = (let n = (of_char c :: nat) in
     \<not> (n < 32 \<or> n = 127 \<or> (128 \<le> n \<and> n \<le> 160) \<or> n = 173))"

definition repr_char :: "char \<Rightarrow> char \<Rightarrow> string" where
  "repr_char q c =
     (if c = q \<or> c = CHR 0x5C then [CHR 0x5C, c]
      else if c = CHR 0x09 then [CHR 0x5C, CHR ''t'']
      else if c = CHR 0x0A then [CHR 0x5C, CHR ''n'']
      else if c = CHR 0x0D then [CHR 0x5C, CHR ''r'']
      else if \<not> printable c then
        [CHR 0x5C, CHR ''x'', digit_char (of_char c div 16), digit_char (of_char c mod 16)]
      else [c])"

definition repr_str :: "string \<Rightarrow> string" where
  "repr_str s =
     (let q = (if CHR 0x27 \<in> set s \<and> CHR 0x22 \<notin> set s then CHR 0x22 else CHR 0x27)
      in q # concat (map (repr_char q) s) @ [q])"

fun join_comma :: "string list \<Rightarrow> string" where
  "join_comma [] = []"
| "join_comma [x] = x"
| "join_comma (x # y # ys) = x @ '', '' @ join_comma (y # ys)"

fun py_repr :: "pyval \<Rightarrow> string" where
  "py_repr PNone = ''None''"
| "py_repr (PBool b) = (if b then ''True'' else ''False'')"
| "py_repr (PInt i) = str_int i"
| "py_repr (PStr s) = repr_str s"
| "py_repr (PList xs) = ''['' @ join_comma (map py_repr xs) @ '']''"

fun py_str :: "pyval \<Rightarrow> string" where
  "py_str (PStr s) = s"
| "py_str v = py_repr v"

subsection \<open>\<^verbatim>\<open>int\<close>, \<^verbatim>\<open>len\<close>, truth value, \<^verbatim>\<open>startswith\<close>\<close>

definition is_space :: "char \<Rightarrow> bool" where
  "is_space c = (let n = (of_char c :: nat) in
     (9 \<le> n \<and> n \<le> 13) \<or> (28 \<le> n \<and> n \<le> 32) \<or> n = 133 \<or> n = 160)"

definition is_digit :: "char \<Rightarrow> bool" where
  "is_digit c = (let n = (of_char c :: nat) in 48 \<le> n \<and> n \<le> 57)"

definition strip :: "string \<Rightarrow> string" where
  "strip s = rev (dropWhile is_space (rev (dropWhile is_space s)))"

text \<open>
  The digits of a decimal literal: at least one digit, a single underscore allowed
  between two digits. The flag says whether the previous character was a digit.
\<close>

fun int_digits :: "bool \<Rightarrow> nat \<Rightarrow> string \<Rightarrow> nat option" where
  "int_digits prev acc [] = (if prev then Some acc else None)"
| "int_digits prev acc (c # cs) =
     (if is_digit c then int_digits True (acc * 10 + (of_char c - 48)) cs
      else if c = CHR ''_'' \<and> prev then int_digits False acc cs
      else None)"

definition int_of_str :: "string \<Rightarrow> error + int" where
  "int_of_str s =
     (case strip s of
        c # cs \<Rightarrow>
          (if c = CHR ''-'' then
             (case int_digits False 0 cs of None \<Rightarrow> Inl ValueError | Some n \<Rightarrow> Inr (- int n))
           else if c = CHR ''+'' then
             (case int_digits False 0 cs of None \<Rightarrow> Inl ValueError | Some n \<Rightarrow> Inr (int n))
           else
             (case int_digits False 0 (c # cs) of None \<Rightarrow> Inl ValueError | Some n \<Rightarrow> Inr (int n)))
      | [] \<Rightarrow> Inl ValueError)"

fun py_int :: "pyval \<Rightarrow> error + int" where
  "py_int PNone = Inl TypeError"
| "py_int (PBool b) = Inr (if b then 1 else 0)"
| "py_int (PInt i) = Inr i"
| "py_int (PStr s) = int_of_str s"
| "py_int (PList xs) = Inl TypeError"

fun py_len :: "pyval \<Rightarrow> error + nat" where
  "py_len (PStr s) = Inr (length s)"
| "py_len (PList xs) = Inr (length xs)"
| "py_len v = Inl TypeError"

fun truthy :: "pyval \<Rightarrow> bool" where
  "truthy PNone = False"
| "truthy (PBool b) = b"
| "truthy (PInt i) = (i \<noteq> 0)"
| "truthy (PStr s) = (s \<noteq> [])"
| "truthy (PList xs) = (xs \<noteq> [])"

text \<open>\<^verbatim>\<open>v.startswith(p)\<close>: only a string has the method.\<close>

fun startswith :: "pyval \<Rightarrow> string \<Rightarrow> error + bool" where
  "startswith (PStr s) p = Inr (take (length p) s = p)"
| "startswith v p = Inl AttributeError"

section \<open>Storage actions\<close>

text \<open>
  An object is either a plain value, which has neither a \<^verbatim>\<open>parent\<close> nor an
  \<^verbatim>\<open>action_id\<close> attribute, or an instance of one of the five storage classes, holding
  the attributes its \<^verbatim>\<open>__init__\<close> assigns, in the order of assignment. The subclasses
  of \<^verbatim>\<open>DiskAction\<close> do not call its \<^verbatim>\<open>__init__\<close>. The attribute \<^verbatim>\<open>parent\<close> of a disk
  and of a bcache is always \<^verbatim>\<open>None\<close> and is not stored. Instances are not mutated after
  construction, so an object holds its parent by value.
\<close>

datatype obj =
    Value pyval
  | DiskAction (disk_action_id: pyval) (disk_ptable: pyval) (disk_model: pyval)
      (disk_serial: pyval) (disk_wipe: pyval)
  | PartitionAction (part_parent: obj) (partnum: int) (part_offset: int) (part_size: int)
      (flags: pyval) (part_action_id: string)
  | BcacheAction (bcachenum: int) (backing_device: string) (cache_device: string)
      (bcache_action_id: string)
  | FormatAction (fmt_parent: obj) (fmt_fstype: pyval) (fmt_action_id: string)
  | MountAction (mnt_parent: obj) (mnt_path: pyval) (mnt_action_id: string)

text \<open>The attribute \<^verbatim>\<open>x.parent\<close>.\<close>

fun parent :: "obj \<Rightarrow> error + obj" where
  "parent (Value v) = Inl AttributeError"
| "parent (DiskAction a pt m s w) = Inr (Value PNone)"
| "parent (PartitionAction p n off sz f a) = Inr p"
| "parent (BcacheAction n b c a) = Inr (Value PNone)"
| "parent (FormatAction p t a) = Inr p"
| "parent (MountAction p t a) = Inr p"

text \<open>The property \<^verbatim>\<open>x.action_id\<close>, \<^verbatim>\<open>str(self._action_id)\<close>, inherited by every class.\<close>

fun action_id :: "obj \<Rightarrow> error + string" where
  "action_id (Value v) = Inl AttributeError"
| "action_id (DiskAction a pt m s w) = Inr (py_str a)"
| "action_id (PartitionAction p n off sz f a) = Inr (py_str (PStr a))"
| "action_id (BcacheAction n b c a) = Inr (py_str (PStr a))"
| "action_id (FormatAction p t a) = Inr (py_str (PStr a))"
| "action_id (MountAction p t a) = Inr (py_str (PStr a))"

text \<open>\<^verbatim>\<open>DiskAction(action_id, model, serial, ptable='gpt', wipe=None)\<close>.\<close>

definition DiskAction_init :: "pyval \<Rightarrow> pyval \<Rightarrow> pyval \<Rightarrow> pyval \<Rightarrow> pyval \<Rightarrow> error + obj" where
  "DiskAction_init aid model serial ptable wipe = Inr (DiskAction aid ptable model serial wipe)"

definition DiskAction_get :: "obj \<Rightarrow> error + (string \<rightharpoonup> pyval)" where
  "DiskAction_get self =
     (case action_id self of Inl e \<Rightarrow> Inl e | Inr i \<Rightarrow>
        (let action = Map.empty(''id'' \<mapsto> PStr i, ''model'' \<mapsto> disk_model self,
                       ''ptable'' \<mapsto> disk_ptable self, ''serial'' \<mapsto> disk_serial self,
                       ''type'' \<mapsto> PStr ''disk'')
         in if truthy (disk_wipe self) then Inr (action(''wipe'' \<mapsto> disk_wipe self))
            else Inr action))"

text \<open>\<^verbatim>\<open>PartitionAction(parent, partnum, offset, size, flags=None)\<close>.\<close>

definition PartitionAction_init :: "obj \<Rightarrow> pyval \<Rightarrow> pyval \<Rightarrow> pyval \<Rightarrow> pyval \<Rightarrow> error + obj" where
  "PartitionAction_init par pnum off sz fl =
     (case py_int pnum of Inl e \<Rightarrow> Inl e | Inr n \<Rightarrow>
      case py_int off of Inl e \<Rightarrow> Inl e | Inr off' \<Rightarrow>
      case py_int sz of Inl e \<Rightarrow> Inl e | Inr sz' \<Rightarrow>
      case action_id par of Inl e \<Rightarrow> Inl e | Inr p \<Rightarrow>
        (let aid = p @ py_str (PInt n) @ ''_part''
         in if fl \<in> set [PStr ''bios_grub'']
            then Inr (PartitionAction par n off' sz' fl ''bios_boot_partition'')
            else Inr (PartitionAction par n off' sz' fl aid)))"

definition PartitionAction_get :: "obj \<Rightarrow> error + (string \<rightharpoonup> pyval)" where
  "PartitionAction_get self =
     (case parent self of Inl e \<Rightarrow> Inl e | Inr par \<Rightarrow>
      case action_id par of Inl e \<Rightarrow> Inl e | Inr dev \<Rightarrow>
      case action_id self of Inl e \<Rightarrow> Inl e | Inr i \<Rightarrow>
        Inr (Map.empty(''device'' \<mapsto> PStr dev, ''flag'' \<mapsto> flags self, ''id'' \<mapsto> PStr i,
             ''number'' \<mapsto> PInt (partnum self),
             ''size'' \<mapsto> PStr (py_str (PInt (part_size self)) @ ''B''),
             ''offset'' \<mapsto> PStr (py_str (PInt (part_offset self)) @ ''B''),
             ''type'' \<mapsto> PStr ''partition'')))"

text \<open>\<^verbatim>\<open>BcacheAction(backing_id, cache_id, bcache_num)\<close>.\<close>

definition BcacheAction_init :: "obj \<Rightarrow> obj \<Rightarrow> pyval \<Rightarrow> error + obj" where
  "BcacheAction_init backing_id cache_id bcache_num =
     (case py_int bcache_num of Inl e \<Rightarrow> Inl e | Inr n \<Rightarrow>
      case parent backing_id of Inl e \<Rightarrow> Inl e | Inr bp \<Rightarrow>
      case action_id bp of Inl e \<Rightarrow> Inl e | Inr b \<Rightarrow>
      case parent cache_id of Inl e \<Rightarrow> Inl e | Inr cp \<Rightarrow>
      case action_id cp of Inl e \<Rightarrow> Inl e | Inr c \<Rightarrow>
        Inr (BcacheAction n b c (''bcache'' @ py_str bcache_num)))"

definition BcacheAction_get :: "obj \<Rightarrow> error + (string \<rightharpoonup> pyval)" where
  "BcacheAction_get self =
     (case action_id self of Inl e \<Rightarrow> Inl e | Inr i \<Rightarrow>
        Inr (Map.empty(''backing_device'' \<mapsto> PStr (backing_device self),
             ''cache_device'' \<mapsto> PStr (cache_device self),
             ''id'' \<mapsto> PStr i,
             ''type'' \<mapsto> PStr ''bcache'')))"

text \<open>\<^verbatim>\<open>FormatAction(parent, fstype)\<close>.\<close>

definition FormatAction_init :: "obj \<Rightarrow> pyval \<Rightarrow> error + obj" where
  "FormatAction_init par fstype =
     (case action_id par of Inl e \<Rightarrow> Inl e | Inr p \<Rightarrow>
        (let aid = p @ ''_fmt'' in
         case startswith fstype ''fat'' of Inl e \<Rightarrow> Inl e | Inr fat \<Rightarrow>
           if fat then Inr (FormatAction par fstype (take 11 aid))
           else
             (case startswith fstype ''linux-swap'' of Inl e \<Rightarrow> Inl e | Inr swap \<Rightarrow>
                if swap then Inr (FormatAction par (PStr ''swap'') aid)
                else Inr (FormatAction par fstype aid))))"

definition FormatAction_get :: "obj \<Rightarrow> error + (string \<rightharpoonup> pyval)" where
  "FormatAction_get self =
     (case parent self of Inl e \<Rightarrow> Inl e | Inr par \<Rightarrow>
      case action_id par of Inl e \<Rightarrow> Inl e | Inr vol \<Rightarrow>
      case action_id self of Inl e \<Rightarrow> Inl e | Inr i \<Rightarrow>
        Inr (Map.empty(''volume'' \<mapsto> PStr vol, ''id'' \<mapsto> PStr i,
             ''fstype'' \<mapsto> fmt_fstype self, ''type'' \<mapsto> PStr ''format'')))"

text \<open>\<^verbatim>\<open>MountAction(parent, path)\<close>.\<close>

definition MountAction_init :: "obj \<Rightarrow> pyval \<Rightarrow> error + obj" where
  "MountAction_init par path =
     (case action_id par of Inl e \<Rightarrow> Inl e | Inr p \<Rightarrow>
        Inr (MountAction par path (p @ ''_mnt'')))"

definition MountAction_get :: "obj \<Rightarrow> error + (string \<rightharpoonup> pyval)" where
  "MountAction_get self =
     (case parent self of Inl e \<Rightarrow> Inl e | Inr par \<Rightarrow>
      case action_id par of Inl e \<Rightarrow> Inl e | Inr dev \<Rightarrow>
      case action_id self of Inl e \<Rightarrow> Inl e | Inr i \<Rightarrow>
        Inr (Map.empty(''device'' \<mapsto> PStr dev, ''id'' \<mapsto> PStr i,
             ''path'' \<mapsto> mnt_path self, ''type'' \<mapsto> PStr ''mount'')))"

text \<open>
  \<^verbatim>\<open>get\<close> is looked up in the class of the instance: every subclass overrides the
  method of \<^verbatim>\<open>DiskAction\<close>; a plain value has no such method.
\<close>

fun get :: "obj \<Rightarrow> error + (string \<rightharpoonup> pyval)" where
  "get (Value v) = Inl AttributeError"
| "get (DiskAction a pt m s w) = DiskAction_get (DiskAction a pt m s w)"
| "get (PartitionAction p n off sz f a) = PartitionAction_get (PartitionAction p n off sz f a)"
| "get (BcacheAction n b c a) = BcacheAction_get (BcacheAction n b c a)"
| "get (FormatAction p t a) = FormatAction_get (FormatAction p t a)"
| "get (MountAction p t a) = MountAction_get (MountAction p t a)"

section \<open>Network actions\<close>

text \<open>
  A network action is its instance dictionary \<^verbatim>\<open>__dict__\<close>; the option bag
  \<^verbatim>\<open>**options\<close> is a dictionary with string keys. An \<^verbatim>\<open>__init__\<close> takes the
  instance dictionary as it is on entry and returns it as it is on exit, with the
  exception raised, if any. A method is the function of the class applied to the
  instance dictionary: an option named like a method, which would shadow it on the
  instance, is not modelled.
\<close>

type_synonym pydict = "string \<rightharpoonup> pyval"

text \<open>\<^verbatim>\<open>k in s\<close> for two strings: \<open>k\<close> occurs in \<open>s\<close> as a substring.\<close>

fun str_contains :: "string \<Rightarrow> string \<Rightarrow> bool" where
  "str_contains k [] = (k = [])"
| "str_contains k (c # cs) = (take (length k) (c # cs) = k \<or> str_contains k cs)"

definition NetAction_init :: "pydict \<Rightarrow> pydict \<Rightarrow> pydict \<times> error option" where
  "NetAction_init self options =
     ((self ++ options)(''_action_keys'' \<mapsto>
         PList [PStr ''type'', PStr ''name'', PStr ''params'', PStr ''subnets'']), None)"

definition NetAction_get :: "pydict \<Rightarrow> error + pydict" where
  "NetAction_get self =
     (case self ''_action_keys'' of
        None \<Rightarrow> Inl AttributeError
      | Some (PList ks) \<Rightarrow> Inr (\<lambda>k. if PStr k \<in> set ks then self k else None)
      | Some (PStr s) \<Rightarrow> Inr (\<lambda>k. if str_contains k s then self k else None)
      | Some _ \<Rightarrow> Inl TypeError)"

text \<open>\<^verbatim>\<open>self._action_keys.extend(ks)\<close>.\<close>

definition extend_action_keys :: "pydict \<Rightarrow> pyval list \<Rightarrow> pydict \<times> error option" where
  "extend_action_keys self ks =
     (case self ''_action_keys'' of
        Some (PList xs) \<Rightarrow> (self(''_action_keys'' \<mapsto> PList (xs @ ks)), None)
      | _ \<Rightarrow> (self, Some AttributeError))"

text \<open>\<^verbatim>\<open>'type' not in options or options['type'] != t\<close>.\<close>

definition bad_type :: "pydict \<Rightarrow> string \<Rightarrow> bool" where
  "bad_type options t = (''type'' \<notin> dom options \<or> options ''type'' \<noteq> Some (PStr t))"

text \<open>
  \<^verbatim>\<open>'name' not in options or len(options['name']) == 0\<close>; \<^verbatim>\<open>len\<close> raises on a value
  that has no length.
\<close>

definition bad_name :: "pydict \<Rightarrow> error + bool" where
  "bad_name options =
     (case options ''name'' of
        None \<Rightarrow> Inr True
      | Some v \<Rightarrow> (case py_len v of Inl e \<Rightarrow> Inl e | Inr n \<Rightarrow> Inr (n = 0)))"

definition PhysicalAction_init :: "pydict \<Rightarrow> pydict \<Rightarrow> pydict \<times> error option" where
  "PhysicalAction_init self options =
     (if bad_type options ''physical'' then
        (self, Some (Exception (''Invalid type for '' @ ''PhysicalAction'')))
      else case bad_name options of Inl e \<Rightarrow> (self, Some e) | Inr bad \<Rightarrow>
        if bad then (self, Some (Exception (''Invalid name for '' @ ''PhysicalAction'')))
        else if ''mac_address'' \<notin> dom options then
          (self, Some (Exception (''PhysicalAction'' @ '' requires a valid mac_address attr'')))
        else case NetAction_init self options of
               (self', Some e) \<Rightarrow> (self', Some e)
             | (self', None) \<Rightarrow> extend_action_keys self' [PStr ''mac_address''])"

definition BridgeAction_init :: "pydict \<Rightarrow> pydict \<Rightarrow> pydict \<times> error option" where
  "BridgeAction_init self options =
     (if bad_type options ''bridge'' then
        (self, Some (Exception (''Invalid type for '' @ ''BridgeAction'')))
      else case bad_name options of Inl e \<Rightarrow> (self, Some e) | Inr bad \<Rightarrow>
        if bad then (self, Some (Exception (''Invalid name for '' @ ''BridgeAction'')))
        else if ''bridge_interfaces'' \<notin> dom options then
          (self, Some (Exception (''BridgeAction'' @ '' requires bridge_interfaces attr'')))
        else case NetAction_init self options of
               (self', Some e) \<Rightarrow> (self', Some e)
             | (self', None) \<Rightarrow> extend_action_keys self' [PStr ''bridge_interfaces''])"

definition VlanAction_init :: "pydict \<Rightarrow> pydict \<Rightarrow> pydict \<times> error option" where
  "VlanAction_init self options =
     (if bad_type options ''vlan'' then
        (self, Some (Exception (''Invalid type for '' @ ''VlanAction'')))
      else case bad_name options of Inl e \<Rightarrow> (self, Some e) | Inr bad \<Rightarrow>
        if bad then (self, Some (Exception (''Invalid name for '' @ ''VlanAction'')))
        else if ''vlan_id'' \<notin> dom options \<or> ''vlan_link'' \<notin> dom options then
          (self, Some (Exception (''VlanAction'' @ '' requires vlan_id and vlan_link attr'')))
        else case NetAction_init self options of
               (self', Some e) \<Rightarrow> (self', Some e)
             | (self', None) \<Rightarrow> extend_action_keys self' [PStr ''vlan_id'', PStr ''vlan_link''])"

definition BondAction_init :: "pydict \<Rightarrow> pydict \<Rightarrow> pydict \<times> error option" where
  "BondAction_init self options =
     (if bad_type options ''bond'' then
        (self, Some (Exception (''Invalid type for '' @ ''BondAction'')))
      else case bad_name options of Inl e \<Rightarrow> (self, Some e) | Inr bad \<Rightarrow>
        if bad then (self, Some (Exception (''Invalid name for '' @ ''BondAction'')))
        else if ''bond_interfaces'' \<notin> dom options then
          (self, Some (Exception (''BondAction'' @ '' requires bond_interfaces attr'')))
        else case NetAction_init self options of
               (self', Some e) \<Rightarrow> (self', Some e)
             | (self', None) \<Rightarrow> extend_action_keys self' [PStr ''bond_interfaces''])"

text \<open>
  A constructor call \<^verbatim>\<open>C(**options)\<close> runs \<^verbatim>\<open>__init__\<close> on a new instance, whose
  dictionary is empty, and returns the instance unless \<^verbatim>\<open>__init__\<close> raised.
\<close>

definition construct ::
  "(pydict \<Rightarrow> pydict \<Rightarrow> pydict \<times> error option) \<Rightarrow> pydict \<Rightarrow> error + pydict" where
  "construct init options =
     (case init Map.empty options of (self, None) \<Rightarrow> Inr self | (self, Some e) \<Rightarrow> Inl e)"

section \<open>Preserve and release\<close>

text \<open>
  Dictionaries are mutable objects: a heap is the list of the dictionaries allocated so
  far, and a reference is an index into it. \<^verbatim>\<open>copy.deepcopy\<close> allocates a new
  dictionary holding a copy of every value; values are trees here, so the copy of a
  value is the value.
\<close>

type_synonym heap = "pydict list"

definition deepcopy :: "heap \<Rightarrow> nat \<Rightarrow> nat \<times> heap" where
  "deepcopy h r = (length h, h @ [h ! r])"

text \<open>\<^verbatim>\<open>a.update({k: v})\<close> and \<^verbatim>\<open>del a[k]\<close> on the dictionary at a reference.\<close>

definition update :: "heap \<Rightarrow> nat \<Rightarrow> string \<Rightarrow> pyval \<Rightarrow> heap" where
  "update h r k v = h[r := (h ! r)(k \<mapsto> v)]"

definition delitem :: "heap \<Rightarrow> nat \<Rightarrow> string \<Rightarrow> error + heap" where
  "delitem h r k =
     (if k \<in> dom (h ! r) then Inr (h[r := (h ! r)(k := None)]) else Inl KeyError)"

definition preserve_action :: "heap \<Rightarrow> nat \<Rightarrow> nat \<times> heap" where
  "preserve_action h action =
     (case deepcopy h action of (a, h1) \<Rightarrow>
        (a, update h1 a ''preserve'' (PBool True)))"

definition release_action :: "heap \<Rightarrow> nat \<Rightarrow> error + nat \<times> heap" where
  "release_action h action =
     (case deepcopy h action of (a, h1) \<Rightarrow>
        if ''preserve'' \<in> dom (h1 ! action) then
          (case delitem h1 a ''preserve'' of Inl e \<Rightarrow> Inl e | Inr h2 \<Rightarrow> Inr (a, h2))
        else Inr (a, h1))"

section \<open>Tables and examples used in the statements\<close>

text \<open>
  The four network classes, with the constants of each as they stand in its
  \<^verbatim>\<open>__init__\<close>: the type tag it compares with, its class name
  (\<^verbatim>\<open>self.__class__.__name__\<close>), the keys it requires in the option bag, which are
  also the keys it appends to \<^verbatim>\<open>_action_keys\<close>, and the tail of the message it raises
  when one of them is missing.
\<close>

datatype variant = Physical | Bridge | Vlan | Bond

fun init_of :: "variant \<Rightarrow> pydict \<Rightarrow> pydict \<Rightarrow> pydict \<times> error option" where
  "init_of Physical = PhysicalAction_init"
| "init_of Bridge = BridgeAction_init"
| "init_of Vlan = VlanAction_init"
| "init_of Bond = BondAction_init"

fun type_tag :: "variant \<Rightarrow> string" where
  "type_tag Physical = ''physical''"
| "type_tag Bridge = ''bridge''"
| "type_tag Vlan = ''vlan''"
| "type_tag Bond = ''bond''"

fun class_name :: "variant \<Rightarrow> string" where
  "class_name Physical = ''PhysicalAction''"
| "class_name Bridge = ''BridgeAction''"
| "class_name Vlan = ''VlanAction''"
| "class_name Bond = ''BondAction''"

fun extension_keys :: "variant \<Rightarrow> string list" where
  "extension_keys Physical = [''mac_address'']"
| "extension_keys Bridge = [''bridge_interfaces'']"
| "extension_keys Vlan = [''vlan_id'', ''vlan_link'']"
| "extension_keys Bond = [''bond_interfaces'']"

fun requires_text :: "variant \<Rightarrow> string" where
  "requires_text Physical = '' requires a valid mac_address attr''"
| "requires_text Bridge = '' requires bridge_interfaces attr''"
| "requires_text Vlan = '' requires vlan_id and vlan_link attr''"
| "requires_text Bond = '' requires bond_interfaces attr''"

definition base_keys :: "string list" where
  "base_keys = [''type'', ''name'', ''params'', ''subnets'']"

text \<open>
  The common shape of the four \<^verbatim>\<open>__init__\<close> methods, over the constants above. The
  methods themselves are the definitions of the previous section; this one only lets a
  proof treat them together.
\<close>

definition checked_init ::
  "string \<Rightarrow> string \<Rightarrow> string list \<Rightarrow> string \<Rightarrow> pydict \<Rightarrow> pydict \<Rightarrow> pydict \<times> error option" where
  "checked_init tag cls ks txt self options =
     (if bad_type options tag then (self, Some (Exception (''Invalid type for '' @ cls)))
      else case bad_name options of Inl e \<Rightarrow> (self, Some e) | Inr bad \<Rightarrow>
        if bad then (self, Some (Exception (''Invalid name for '' @ cls)))
        else if \<not> set ks \<subseteq> dom options then (self, Some (Exception (cls @ txt)))
        else case NetAction_init self options of
               (self', Some e) \<Rightarrow> (self', Some e)
             | (self', None) \<Rightarrow> extend_action_keys self' (map PStr ks))"

text \<open>An object with its own \<^verbatim>\<open>_action_id\<close> replaced, everything else as it was.\<close>

fun with_action_id :: "obj \<Rightarrow> string \<Rightarrow> obj" where
  "with_action_id (Value v) x = Value v"
| "with_action_id (DiskAction a pt m s w) x = DiskAction (PStr x) pt m s w"
| "with_action_id (PartitionAction p n off sz f a) x = PartitionAction p n off sz f x"
| "with_action_id (BcacheAction n b c a) x = BcacheAction n b c x"
| "with_action_id (FormatAction p t a) x = FormatAction p t x"
| "with_action_id (MountAction p t a) x = MountAction p t x"

text \<open>Concrete inputs: a disk, two partitions of it, option bags and mappings.\<close>

definition sda :: obj where
  "sda = DiskAction (PStr ''sda'') (PStr ''gpt'') (PStr ''QEMU HARDDISK'') (PStr ''QM00001'') PNone"

definition sda1 :: obj where
  "sda1 = PartitionAction sda 1 0 1048576 PNone ''sda1_part''"

definition sda2 :: obj where
  "sda2 = PartitionAction sda 2 1048576 1048576 PNone ''sda2_part''"

definition vlan_options :: pydict where
  "vlan_options = Map.empty(''type'' \<mapsto> PStr ''vlan'', ''name'' \<mapsto> PStr ''eth0.5'',
     ''vlan_id'' \<mapsto> PInt 5)"

definition physical_options :: pydict where
  "physical_options = Map.empty(''type'' \<mapsto> PStr ''physical'', ''name'' \<mapsto> PStr ''eth0'',
     ''mac_address'' \<mapsto> PStr ''52:54:00:12:34:56'', ''mtu'' \<mapsto> PInt 1500)"

definition disk_mapping :: pydict where
  "disk_mapping = Map.empty(''id'' \<mapsto> PStr ''a'', ''type'' \<mapsto> PStr ''disk'')"

definition preserved_mapping :: pydict where
  "preserved_mapping = Map.empty(''id'' \<mapsto> PStr ''a'', ''preserve'' \<mapsto> PBool True)"

section \<open>Auxiliary facts\<close>

lemma str_int_0: "str_int 0 = ''0''"
  by (simp add: str_int_def str_nat.simps digit_char_def)

lemma str_int_1: "str_int 1 = ''1''"
  by (simp add: str_int_def str_nat.simps digit_char_def)

lemma action_id_error: "action_id x = Inl e \<Longrightarrow> e = AttributeError"
  by (cases x) simp_all

lemma parent_with_action_id: "parent (with_action_id B x) = parent B"
  by (cases B) simp_all

lemma py_int_error:
  "py_int v = Inl e \<Longrightarrow>
     (e = TypeError \<and> (v = PNone \<or> (\<exists>xs. v = PList xs))) \<or> (e = ValueError \<and> (\<exists>s. v = PStr s))"
  by (cases v) (auto simp: int_of_str_def split: list.splits if_splits option.splits)

lemma PartitionAction_serializes:
  "PartitionAction_init par pnum off sz fl = Inr self \<Longrightarrow> \<exists>m. get self = Inr m"
  by (auto simp: PartitionAction_init_def PartitionAction_get_def split: sum.splits if_splits)

lemma FormatAction_serializes:
  "FormatAction_init par t = Inr self \<Longrightarrow> \<exists>m. get self = Inr m"
  by (auto simp: FormatAction_init_def FormatAction_get_def Let_def split: sum.splits if_splits)

lemma MountAction_serializes:
  "MountAction_init par p = Inr self \<Longrightarrow> \<exists>m. get self = Inr m"
  by (auto simp: MountAction_init_def MountAction_get_def split: sum.splits)

lemma BcacheAction_serializes:
  "BcacheAction_init B C num = Inr self \<Longrightarrow> \<exists>m. get self = Inr m"
  by (auto simp: BcacheAction_init_def BcacheAction_get_def split: sum.splits)

lemma get_no_preserve: "get self = Inr m \<Longrightarrow> ''preserve'' \<notin> dom m"
  by (cases self)
    (auto simp: DiskAction_get_def PartitionAction_get_def BcacheAction_get_def
      FormatAction_get_def MountAction_get_def Let_def split: sum.splits if_splits)

subsection \<open>The four network constructors have the common shape\<close>

lemma init_of_checked:
  "init_of v = checked_init (type_tag v) (class_name v) (extension_keys v) (requires_text v)"
proof (cases v)
  case Physical
  then show ?thesis
    by (auto simp: fun_eq_iff PhysicalAction_init_def checked_init_def split: sum.splits)
next
  case Bridge
  then show ?thesis
    by (auto simp: fun_eq_iff BridgeAction_init_def checked_init_def split: sum.splits)
next
  case Vlan
  then show ?thesis
    by (auto simp: fun_eq_iff VlanAction_init_def checked_init_def split: sum.splits)
next
  case Bond
  then show ?thesis
    by (auto simp: fun_eq_iff BondAction_init_def checked_init_def split: sum.splits)
qed

lemma bad_type_iff: "bad_type options t \<longleftrightarrow> options ''type'' \<noteq> Some (PStr t)"
  by (auto simp: bad_type_def)

lemma bad_name_None: "options ''name'' = None \<Longrightarrow> bad_name options = Inr True"
  by (simp add: bad_name_def)

lemma bad_name_Some:
  "options ''name'' = Some x \<Longrightarrow> py_len x = Inr n \<Longrightarrow> bad_name options = Inr (n = 0)"
  by (simp add: bad_name_def)

lemma extend_after_init:
  "extend_action_keys (fst (NetAction_init self options)) (map PStr ks) =
     ((self ++ options)(''_action_keys'' \<mapsto> PList (map PStr (base_keys @ ks))), None)"
  by (simp add: NetAction_init_def extend_action_keys_def base_keys_def)

lemma checked_init_pass:
  assumes "\<not> bad_type options tag" and "bad_name options = Inr False"
    and "set ks \<subseteq> dom options"
  shows "checked_init tag cls ks txt self options =
     ((self ++ options)(''_action_keys'' \<mapsto> PList (map PStr (base_keys @ ks))), None)"
proof -
  have "checked_init tag cls ks txt self options =
          extend_action_keys (fst (NetAction_init self options)) (map PStr ks)"
    using assms by (simp add: checked_init_def NetAction_init_def)
  then show ?thesis by (simp only: extend_after_init)
qed

lemma checked_init_fail:
  assumes "snd (checked_init tag cls ks txt self options) = Some e"
  shows "fst (checked_init tag cls ks txt self options) = self"
proof (cases "bad_type options tag")
  case True
  then show ?thesis by (simp add: checked_init_def)
next
  case t: False
  show ?thesis
  proof (cases "bad_name options")
    case (Inl e')
    with t show ?thesis by (simp add: checked_init_def)
  next
    case (Inr bad)
    show ?thesis
    proof (cases "bad \<or> \<not> set ks \<subseteq> dom options")
      case True
      with t Inr show ?thesis by (auto simp: checked_init_def)
    next
      case False
      with t Inr have "snd (checked_init tag cls ks txt self options) = None"
        by (simp add: checked_init_pass)
      with assms show ?thesis by simp
    qed
  qed
qed

lemma checked_constructed:
  assumes "construct (checked_init tag cls ks txt) options = Inr self"
  shows "self = options(''_action_keys'' \<mapsto> PList (map PStr (base_keys @ ks)))"
proof -
  have t: "\<not> bad_type options tag"
    using assms by (auto simp: construct_def checked_init_def)
  have n: "bad_name options = Inr False"
    using assms t
    by (cases "bad_name options") (auto simp: construct_def checked_init_def split: if_splits)
  have r: "set ks \<subseteq> dom options"
    using assms t n by (auto simp: construct_def checked_init_def split: if_splits)
  show ?thesis
    using assms by (simp add: construct_def checked_init_pass [OF t n r])
qed

lemma get_of_keys:
  assumes "''_action_keys'' \<notin> set ks"
    and "self = options(''_action_keys'' \<mapsto> PList (map PStr ks))"
  shows "\<exists>m. NetAction_get self = Inr m \<and> dom m = set ks \<inter> dom options \<and>
           (\<forall>k \<in> dom m. m k = options k) \<and> (\<forall>k. k \<notin> set ks \<longrightarrow> m k = None)"
proof -
  have mem: "\<And>k. PStr k \<in> set (map PStr ks) \<longleftrightarrow> k \<in> set ks"
    by auto
  let ?m = "\<lambda>k. if k \<in> set ks then self k else None"
  have g: "NetAction_get self = Inr ?m"
    unfolding assms(2) by (simp add: NetAction_get_def mem del: set_map)
  have v: "\<And>k. k \<in> set ks \<Longrightarrow> self k = options k"
    using assms by auto
  have d: "dom ?m = set ks \<inter> dom options"
    using v by (auto simp: dom_def split: if_splits)
  have e: "\<forall>k \<in> dom ?m. ?m k = options k"
    using v by (auto simp: dom_def split: if_splits)
  have f: "\<forall>k. k \<notin> set ks \<longrightarrow> ?m k = None"
    by simp
  from g d e f show ?thesis by blast
qed

lemma declared_keys_not_private: "''_action_keys'' \<notin> set (base_keys @ extension_keys v)"
  by (cases v) (simp_all add: base_keys_def)

subsection \<open>Preserve and release on a valid reference\<close>

lemma preserve_action_eq:
  "x < length h \<Longrightarrow>
     preserve_action h x = (length h, h @ [(h ! x)(''preserve'' \<mapsto> PBool True)])"
  by (simp add: preserve_action_def deepcopy_def update_def nth_append)

lemma remove_absent: "k \<notin> dom m \<Longrightarrow> m(k := None) = m"
  by (auto simp: fun_eq_iff)

lemma release_action_eq:
  assumes "x < length h"
  shows "release_action h x = Inr (length h, h @ [(h ! x)(''preserve'' := None)])"
proof (cases "''preserve'' \<in> dom (h ! x)")
  case True
  with assms show ?thesis
    by (simp add: release_action_def deepcopy_def delitem_def nth_append)
next
  case False
  with assms remove_absent [of "''preserve''" "h ! x"] show ?thesis
    by (simp add: release_action_def deepcopy_def nth_append)
qed

section \<open>The claims\<close>

text \<open>
  Claim C1. A partition built from a parent whose \<^verbatim>\<open>action_id\<close> is \<open>P\<close>, with a
  partition number that \<^verbatim>\<open>int\<close> turns into \<open>N\<close> (an integer \<open>N\<close> itself in particular),
  has the \<^verbatim>\<open>action_id\<close> \<open>P + str(N) + "_part"\<close>, except that with
  \<^verbatim>\<open>flags == "bios_grub"\<close> it is the literal \<^verbatim>\<open>bios_boot_partition\<close>, whatever the
  parent and the number.
\<close>

theorem partition_action_id:
  assumes "action_id par = Inr P" and "py_int pnum = Inr N"
    and "py_int off = Inr off'" and "py_int sz = Inr sz'"
  shows "\<exists>self. PartitionAction_init par pnum off sz fl = Inr self \<and>
           action_id self = Inr (if fl = PStr ''bios_grub'' then ''bios_boot_partition''
                                 else P @ py_str (PInt N) @ ''_part'')"
  using assms by (simp add: PartitionAction_init_def)

theorem partition_action_id_witness:
  "action_id sda = Inr ''sda'' \<and> py_int (PInt 1) = Inr 1 \<and>
   py_int (PInt 0) = Inr 0 \<and> py_int (PInt 1048576) = Inr 1048576 \<and>
   (\<exists>self. PartitionAction_init sda (PInt 1) (PInt 0) (PInt 1048576) PNone = Inr self \<and>
            action_id self = Inr ''sda1_part'') \<and>
   (\<exists>self. PartitionAction_init sda (PInt 1) (PInt 0) (PInt 1048576) (PStr ''bios_grub'') =
              Inr self \<and>
            action_id self = Inr ''bios_boot_partition'')"
proof -
  have a: "action_id sda = Inr ''sda''" by (simp add: sda_def)
  have n: "py_int (PInt 1) = Inr 1" by simp
  have off: "py_int (PInt 0) = Inr 0" by simp
  have sz: "py_int (PInt 1048576) = Inr 1048576" by simp
  show ?thesis
    using partition_action_id [OF a n off sz, of PNone]
      partition_action_id [OF a n off sz, of "PStr ''bios_grub''"] a
    by (simp add: str_int_1)
qed

text \<open>
  Claim C2. A format built from a parent whose \<^verbatim>\<open>action_id\<close> is \<open>P\<close> with the
  filesystem type \<open>F\<close>, a string: if \<open>F\<close> starts with \<^verbatim>\<open>fat\<close>, the \<^verbatim>\<open>action_id\<close> is the
  first 11 characters of \<open>P + "_fmt"\<close>, of length at most 11, and the stored type stays
  \<open>F\<close>; if \<open>F\<close> starts with \<^verbatim>\<open>linux-swap\<close>, the type stored and serialized is
  \<^verbatim>\<open>swap\<close> and the \<^verbatim>\<open>action_id\<close> is \<open>P + "_fmt"\<close>; otherwise the \<^verbatim>\<open>action_id\<close> is
  \<open>P + "_fmt"\<close> and the type is \<open>F\<close>.
\<close>

theorem format_action_id:
  assumes "action_id par = Inr P"
  shows "\<exists>self m. FormatAction_init par (PStr F) = Inr self \<and> get self = Inr m \<and>
     (take (length ''fat'') F = ''fat'' \<longrightarrow>
        action_id self = Inr (take 11 (P @ ''_fmt'')) \<and>
        m ''id'' = Some (PStr (take 11 (P @ ''_fmt''))) \<and>
        length (take 11 (P @ ''_fmt'')) \<le> 11 \<and>
        fmt_fstype self = PStr F \<and> m ''fstype'' = Some (PStr F)) \<and>
     (take (length ''linux-swap'') F = ''linux-swap'' \<longrightarrow>
        fmt_fstype self = PStr ''swap'' \<and> m ''fstype'' = Some (PStr ''swap'') \<and>
        action_id self = Inr (P @ ''_fmt'') \<and> m ''id'' = Some (PStr (P @ ''_fmt''))) \<and>
     (take (length ''fat'') F \<noteq> ''fat'' \<and>
      take (length ''linux-swap'') F \<noteq> ''linux-swap'' \<longrightarrow>
        action_id self = Inr (P @ ''_fmt'') \<and> m ''id'' = Some (PStr (P @ ''_fmt'')) \<and>
        fmt_fstype self = PStr F \<and> m ''fstype'' = Some (PStr F))"
proof -
  have excl: "take (length ''linux-swap'') F = ''linux-swap'' \<Longrightarrow>
      take (length ''fat'') F \<noteq> ''fat''"
    by (cases F) auto
  show ?thesis
  proof (cases "take (length ''fat'') F = ''fat''")
    case True
    with assms excl show ?thesis
      by (auto simp: FormatAction_init_def FormatAction_get_def Let_def)
  next
    case False
    with assms show ?thesis
      by (cases "take (length ''linux-swap'') F = ''linux-swap''")
        (auto simp: FormatAction_init_def FormatAction_get_def Let_def)
  qed
qed

theorem format_action_id_witness:
  "action_id sda1 = Inr ''sda1_part'' \<and>
   (\<exists>self m. FormatAction_init sda1 (PStr ''fat32'') = Inr self \<and> get self = Inr m \<and>
      action_id self = Inr ''sda1_part_f'' \<and> m ''fstype'' = Some (PStr ''fat32'')) \<and>
   (\<exists>self m. FormatAction_init sda1 (PStr ''linux-swap(v1)'') = Inr self \<and> get self = Inr m \<and>
      action_id self = Inr ''sda1_part_fmt'' \<and> m ''fstype'' = Some (PStr ''swap'')) \<and>
   (\<exists>self m. FormatAction_init sda1 (PStr ''ext4'') = Inr self \<and> get self = Inr m \<and>
      action_id self = Inr ''sda1_part_fmt'' \<and> m ''fstype'' = Some (PStr ''ext4''))"
proof -
  have a: "action_id sda1 = Inr ''sda1_part''" by (simp add: sda1_def)
  show ?thesis
    using format_action_id [OF a, of "''fat32''"]
      format_action_id [OF a, of "''linux-swap(v1)''"]
      format_action_id [OF a, of "''ext4''"] a
    by simp blast
qed

text \<open>
  Claim C3. A bcache built from a backing node \<open>B\<close> and a cache node \<open>C\<close>, each
  holding a parent, serializes \<^verbatim>\<open>backing_device\<close> as the \<^verbatim>\<open>action_id\<close> of the parent
  of \<open>B\<close> and \<^verbatim>\<open>cache_device\<close> as the \<^verbatim>\<open>action_id\<close> of the parent of \<open>C\<close>; the
  \<^verbatim>\<open>action_id\<close> of the nodes themselves is not read, so the result is the same whatever
  it is; and the \<^verbatim>\<open>action_id\<close> of the bcache is \<open>"bcache" + str(bcache_num)\<close>.
\<close>

theorem bcache_devices:
  assumes "parent B = Inr bp" and "action_id bp = Inr b"
    and "parent C = Inr cp" and "action_id cp = Inr c"
    and "py_int num = Inr n"
  shows "\<exists>self m. BcacheAction_init B C num = Inr self \<and> get self = Inr m \<and>
     m ''backing_device'' = Some (PStr b) \<and>
     m ''cache_device'' = Some (PStr c) \<and>
     action_id self = Inr (''bcache'' @ py_str num) \<and>
     m ''id'' = Some (PStr (''bcache'' @ py_str num)) \<and>
     (\<forall>x y. BcacheAction_init (with_action_id B x) (with_action_id C y) num = Inr self)"
  using assms by (simp add: BcacheAction_init_def BcacheAction_get_def parent_with_action_id)

theorem bcache_devices_witness:
  "parent sda1 = Inr sda \<and> parent sda2 = Inr sda \<and> action_id sda = Inr ''sda'' \<and>
   action_id sda1 = Inr ''sda1_part'' \<and> py_int (PInt 0) = Inr 0 \<and>
   (\<exists>self m. BcacheAction_init sda1 sda2 (PInt 0) = Inr self \<and> get self = Inr m \<and>
      m ''backing_device'' = Some (PStr ''sda'') \<and>
      m ''cache_device'' = Some (PStr ''sda'') \<and>
      action_id self = Inr ''bcache0'')"
proof -
  have p1: "parent sda1 = Inr sda" by (simp add: sda1_def)
  have p2: "parent sda2 = Inr sda" by (simp add: sda2_def)
  have a: "action_id sda = Inr ''sda''" by (simp add: sda_def)
  have a1: "action_id sda1 = Inr ''sda1_part''" by (simp add: sda1_def)
  have n: "py_int (PInt 0) = Inr 0" by simp
  show ?thesis
    using bcache_devices [OF p1 a p2 a n] p1 p2 a a1
    by (auto simp: str_int_0)
qed

text \<open>
  Claim C4, as stated, fails: with \<^verbatim>\<open>None\<close> for a parent the constructor of a partition
  does not return, it raises the attribute error itself, since \<^verbatim>\<open>__init__\<close> reads
  \<^verbatim>\<open>self.parent.action_id\<close> to derive the identifier.
\<close>

theorem construction_with_none_parent_fails:
  "PartitionAction_init (Value PNone) (PInt 1) (PInt 0) (PInt 0) PNone = Inl AttributeError"
  by (simp add: PartitionAction_init_def)

text \<open>
  Claim C4, amended. When the parent has no usable \<^verbatim>\<open>action_id\<close>, the error is an
  attribute error and it is raised by the constructor: of a partition (once the three
  integer coercions, which come first, have succeeded), of a format, of a mount, and of
  a bcache whose backing or cache node has such a parent (once \<^verbatim>\<open>int(bcache_num)\<close> has
  succeeded). No object is built, so there is nothing to serialize; and every object a
  constructor does return serializes without an error.
\<close>

theorem missing_action_id_raises_in_constructor:
  assumes "action_id par = Inl e"
  shows "e = AttributeError \<and>
    (\<forall>n off' sz'. py_int pnum = Inr n \<and> py_int off = Inr off' \<and> py_int sz = Inr sz' \<longrightarrow>
       PartitionAction_init par pnum off sz fl = Inl AttributeError) \<and>
    FormatAction_init par t = Inl AttributeError \<and>
    MountAction_init par path = Inl AttributeError \<and>
    (\<forall>B n. py_int num = Inr n \<and> parent B = Inr par \<longrightarrow>
       BcacheAction_init B C num = Inl AttributeError) \<and>
    (\<forall>B bp b n. py_int num = Inr n \<and> parent B = Inr bp \<and> action_id bp = Inr b \<and>
        parent C = Inr par \<longrightarrow> BcacheAction_init B C num = Inl AttributeError) \<and>
    (\<forall>p a b c d self. PartitionAction_init p a b c d = Inr self \<longrightarrow> (\<exists>m. get self = Inr m)) \<and>
    (\<forall>p a self. FormatAction_init p a = Inr self \<longrightarrow> (\<exists>m. get self = Inr m)) \<and>
    (\<forall>p a self. MountAction_init p a = Inr self \<longrightarrow> (\<exists>m. get self = Inr m)) \<and>
    (\<forall>p a b self. BcacheAction_init p a b = Inr self \<longrightarrow> (\<exists>m. get self = Inr m))"
proof -
  from assms have e: "e = AttributeError" by (rule action_id_error)
  with assms have a: "action_id par = Inl AttributeError" by simp
  show ?thesis
    using e a PartitionAction_serializes FormatAction_serializes MountAction_serializes
      BcacheAction_serializes
    by (auto simp: PartitionAction_init_def FormatAction_init_def MountAction_init_def
        BcacheAction_init_def)
qed

theorem missing_action_id_raises_in_constructor_witness:
  "action_id (Value PNone) = Inl AttributeError \<and>
   PartitionAction_init (Value PNone) (PInt 1) (PInt 0) (PInt 1048576) PNone =
     Inl AttributeError \<and>
   FormatAction_init (Value PNone) (PStr ''ext4'') = Inl AttributeError \<and>
   MountAction_init (Value PNone) (PStr ''/'') = Inl AttributeError \<and>
   BcacheAction_init sda sda1 (PInt 0) = Inl AttributeError \<and>
   BcacheAction_init sda1 sda (PInt 0) = Inl AttributeError"
proof -
  have a: "action_id (Value PNone) = Inl AttributeError" by simp
  have p: "parent sda = Inr (Value PNone)" by (simp add: sda_def)
  have p1: "parent sda1 = Inr sda" by (simp add: sda1_def)
  have a1: "action_id sda = Inr ''sda''" by (simp add: sda_def)
  have c1: "PartitionAction_init (Value PNone) (PInt 1) (PInt 0) (PInt 1048576) PNone =
     Inl AttributeError"
    using missing_action_id_raises_in_constructor
      [OF a, of "PInt 1" "PInt 0" "PInt 1048576" PNone]
    by simp
  have c2: "FormatAction_init (Value PNone) (PStr ''ext4'') = Inl AttributeError"
    using missing_action_id_raises_in_constructor [OF a, where t = "PStr ''ext4''"]
    by simp
  have c3: "MountAction_init (Value PNone) (PStr ''/'') = Inl AttributeError"
    using missing_action_id_raises_in_constructor [OF a, where path = "PStr ''/''"]
    by simp
  have c4: "BcacheAction_init sda sda1 (PInt 0) = Inl AttributeError"
    using missing_action_id_raises_in_constructor
      [OF a, where num = "PInt 0" and C = sda1] p
    by simp
  have c5: "BcacheAction_init sda1 sda (PInt 0) = Inl AttributeError"
    using missing_action_id_raises_in_constructor
      [OF a, where num = "PInt 0" and C = sda] p p1 a1
    by simp
  from a c1 c2 c3 c4 c5 show ?thesis by simp
qed

text \<open>
  Claim C5, as stated, fails on a mapping that already has the key \<^verbatim>\<open>preserve\<close>:
  preserving it changes nothing, releasing the result removes the key, and what
  comes back differs from the mapping one started with.
\<close>

theorem release_preserve_drops_existing_key:
  "preserve_action [preserved_mapping] 0 = (1, [preserved_mapping, preserved_mapping]) \<and>
   release_action [preserved_mapping, preserved_mapping] 1 =
     Inr (2, [preserved_mapping, preserved_mapping, Map.empty(''id'' \<mapsto> PStr ''a'')]) \<and>
   Map.empty(''id'' \<mapsto> PStr ''a'') \<noteq> preserved_mapping"
proof -
  have a: "preserved_mapping(''preserve'' \<mapsto> PBool True) = preserved_mapping"
    by (auto simp: preserved_mapping_def fun_eq_iff)
  have b: "preserved_mapping(''preserve'' := None) = Map.empty(''id'' \<mapsto> PStr ''a'')"
    by (auto simp: preserved_mapping_def fun_eq_iff)
  have c: "Map.empty(''id'' \<mapsto> PStr ''a'') \<noteq> preserved_mapping"
  proof
    assume "Map.empty(''id'' \<mapsto> PStr ''a'') = preserved_mapping"
    then have "(Map.empty(''id'' \<mapsto> PStr ''a'')) ''preserve'' = preserved_mapping ''preserve''"
      by simp
    then show False by (simp add: preserved_mapping_def)
  qed
  show ?thesis
    using a b c by (simp add: preserve_action_eq release_action_eq)
qed

text \<open>
  Claim C5, amended. For a mapping \<open>x\<close> in the heap: \<^verbatim>\<open>preserve\<close> and \<^verbatim>\<open>release\<close> each
  return a new dictionary and leave every dictionary that existed, \<open>x\<close> among them, as
  it was; the new dictionary is \<open>x\<close> with \<^verbatim>\<open>preserve\<close> set to \<^verbatim>\<open>True\<close>, respectively \<open>x\<close>
  without the key; \<^verbatim>\<open>release\<close> never raises, and on a mapping without the key it
  returns an equal mapping; and \<open>release(preserve(x)) == x\<close> when \<open>x\<close> has no key
  \<^verbatim>\<open>preserve\<close>, as is the case of every mapping a \<^verbatim>\<open>get\<close> of this module returns.
\<close>

theorem preserve_release_roundtrip:
  assumes "x < length h"
  shows "\<exists>p h1 r h2 r' h'.
     preserve_action h x = (p, h1) \<and> release_action h1 p = Inr (r, h2) \<and>
     release_action h x = Inr (r', h') \<and>
     p = length h \<and> r' = length h \<and> r = length h1 \<and>
     (\<forall>i < length h. h1 ! i = h ! i \<and> h2 ! i = h ! i \<and> h' ! i = h ! i) \<and>
     h1 ! p = (h ! x)(''preserve'' \<mapsto> PBool True) \<and>
     h' ! r' = (h ! x)(''preserve'' := None) \<and>
     (''preserve'' \<notin> dom (h ! x) \<longrightarrow> h' ! r' = h ! x \<and> h2 ! r = h ! x) \<and>
     (\<forall>self m. get self = Inr m \<longrightarrow> ''preserve'' \<notin> dom m) \<and>
     (\<forall>v options self m. construct (init_of v) options = Inr self \<and>
        NetAction_get self = Inr m \<longrightarrow> ''preserve'' \<notin> dom m)"
proof -
  have same: "''preserve'' \<notin> dom (h ! x) \<Longrightarrow> (h ! x)(''preserve'' := None) = h ! x"
    by (rule remove_absent)
  have net: "''preserve'' \<notin> dom m"
    if c: "construct (init_of v) options = Inr self" and g: "NetAction_get self = Inr m"
    for v options self m
  proof -
    from c have "construct (checked_init (type_tag v) (class_name v) (extension_keys v)
        (requires_text v)) options = Inr self"
      by (simp only: init_of_checked)
    from get_of_keys [OF declared_keys_not_private checked_constructed [OF this]] g
    have "dom m = set (base_keys @ extension_keys v) \<inter> dom options"
      by auto
    moreover have "''preserve'' \<notin> set (base_keys @ extension_keys v)"
      by (cases v) (simp_all add: base_keys_def)
    ultimately show ?thesis by simp
  qed
  have main: "\<exists>p h1 r h2 r' h'.
     preserve_action h x = (p, h1) \<and> release_action h1 p = Inr (r, h2) \<and>
     release_action h x = Inr (r', h') \<and>
     p = length h \<and> r' = length h \<and> r = length h1 \<and>
     (\<forall>i < length h. h1 ! i = h ! i \<and> h2 ! i = h ! i \<and> h' ! i = h ! i) \<and>
     h1 ! p = (h ! x)(''preserve'' \<mapsto> PBool True) \<and>
     h' ! r' = (h ! x)(''preserve'' := None) \<and>
     (''preserve'' \<notin> dom (h ! x) \<longrightarrow> h' ! r' = h ! x \<and> h2 ! r = h ! x)"
    using assms same
    by (simp add: preserve_action_eq release_action_eq nth_append)
  from main get_no_preserve net show ?thesis by blast
qed

theorem preserve_release_roundtrip_witness:
  "0 < length [disk_mapping] \<and> ''preserve'' \<notin> dom ([disk_mapping] ! 0) \<and>
   (\<exists>p h1 r h2. preserve_action [disk_mapping] 0 = (p, h1) \<and>
      release_action h1 p = Inr (r, h2) \<and>
      h1 ! p = disk_mapping(''preserve'' \<mapsto> PBool True) \<and>
      h2 ! r = disk_mapping \<and> h1 ! 0 = disk_mapping \<and> h2 ! 0 = disk_mapping)"
proof -
  have l: "0 < length [disk_mapping]" by simp
  have n: "''preserve'' \<notin> dom ([disk_mapping] ! 0)" by (simp add: disk_mapping_def)
  from preserve_release_roundtrip [OF l] obtain p h1 r h2 where
    "preserve_action [disk_mapping] 0 = (p, h1)" "release_action h1 p = Inr (r, h2)"
    "\<forall>i < length [disk_mapping]. h1 ! i = [disk_mapping] ! i \<and> h2 ! i = [disk_mapping] ! i"
    "h1 ! p = ([disk_mapping] ! 0)(''preserve'' \<mapsto> PBool True)"
    "''preserve'' \<notin> dom ([disk_mapping] ! 0) \<longrightarrow> h2 ! r = [disk_mapping] ! 0"
    by blast
  with l n show ?thesis by auto
qed

text \<open>
  Claim C9. \<^verbatim>\<open>preserve\<close> and \<^verbatim>\<open>release\<close> are idempotent: for a mapping \<open>x\<close> in the
  heap, the mapping \<^verbatim>\<open>preserve(preserve(x))\<close> equals the mapping \<^verbatim>\<open>preserve(x)\<close>, and
  the mapping \<^verbatim>\<open>release(release(x))\<close> equals the mapping \<^verbatim>\<open>release(x)\<close>; the second call
  leaves the result of the first as it was.
\<close>

theorem preserve_release_idempotent:
  assumes "x < length h"
  shows "(\<exists>p h1 p' h2. preserve_action h x = (p, h1) \<and> preserve_action h1 p = (p', h2) \<and>
            h2 ! p' = h2 ! p \<and> h2 ! p = h1 ! p) \<and>
         (\<exists>r h1 r' h2. release_action h x = Inr (r, h1) \<and> release_action h1 r = Inr (r', h2) \<and>
            h2 ! r' = h2 ! r \<and> h2 ! r = h1 ! r)"
  using assms by (simp add: preserve_action_eq release_action_eq nth_append)

theorem preserve_release_idempotent_witness:
  "0 < length [preserved_mapping] \<and>
   (\<exists>p h1 p' h2. preserve_action [preserved_mapping] 0 = (p, h1) \<and>
      preserve_action h1 p = (p', h2) \<and> h2 ! p' = h2 ! p \<and> h2 ! p = h1 ! p) \<and>
   (\<exists>r h1 r' h2. release_action [preserved_mapping] 0 = Inr (r, h1) \<and>
      release_action h1 r = Inr (r', h2) \<and> h2 ! r' = h2 ! r \<and> h2 ! r = h1 ! r)"
proof -
  have l: "0 < length [preserved_mapping]" by simp
  from preserve_release_idempotent [OF l] l show ?thesis by simp
qed

text \<open>
  Claim C6. Each of the four network constructors checks the type tag first, then that
  the name is present and not empty, then that the keys the variant requires are
  present. The first check that fails raises an exception whose message holds the name
  of the class, and the instance is then as it was on entry: no attribute has been
  assigned. When the three checks pass, the constructor returns.
\<close>

theorem net_validation_order:
  "(options ''type'' \<noteq> Some (PStr (type_tag v)) \<longrightarrow>
      init_of v self options =
        (self, Some (Exception (''Invalid type for '' @ class_name v)))) \<and>
   (options ''type'' = Some (PStr (type_tag v)) \<and>
    (options ''name'' = None \<or> (\<exists>x. options ''name'' = Some x \<and> py_len x = Inr 0)) \<longrightarrow>
      init_of v self options =
        (self, Some (Exception (''Invalid name for '' @ class_name v)))) \<and>
   (options ''type'' = Some (PStr (type_tag v)) \<and>
    (\<exists>x n. options ''name'' = Some x \<and> py_len x = Inr (Suc n)) \<and>
    \<not> set (extension_keys v) \<subseteq> dom options \<longrightarrow>
      init_of v self options =
        (self, Some (Exception (class_name v @ requires_text v)))) \<and>
   (options ''type'' = Some (PStr (type_tag v)) \<and>
    (\<exists>x n. options ''name'' = Some x \<and> py_len x = Inr (Suc n)) \<and>
    set (extension_keys v) \<subseteq> dom options \<longrightarrow>
      snd (init_of v self options) = None) \<and>
   (\<forall>e. snd (init_of v self options) = Some e \<longrightarrow> fst (init_of v self options) = self)"
proof (intro conjI impI allI)
  assume "options ''type'' \<noteq> Some (PStr (type_tag v))"
  then show "init_of v self options =
        (self, Some (Exception (''Invalid type for '' @ class_name v)))"
    by (simp add: init_of_checked checked_init_def bad_type_iff)
next
  assume a: "options ''type'' = Some (PStr (type_tag v)) \<and>
    (options ''name'' = None \<or> (\<exists>x. options ''name'' = Some x \<and> py_len x = Inr 0))"
  then have "bad_name options = Inr True"
    using bad_name_None [of options] bad_name_Some [of options _ 0] by auto
  with a show "init_of v self options =
        (self, Some (Exception (''Invalid name for '' @ class_name v)))"
    by (simp add: init_of_checked checked_init_def bad_type_iff)
next
  assume a: "options ''type'' = Some (PStr (type_tag v)) \<and>
    (\<exists>x n. options ''name'' = Some x \<and> py_len x = Inr (Suc n)) \<and>
    \<not> set (extension_keys v) \<subseteq> dom options"
  then have "bad_name options = Inr False"
    using bad_name_Some [of options] by fastforce
  with a show "init_of v self options =
        (self, Some (Exception (class_name v @ requires_text v)))"
    by (simp add: init_of_checked checked_init_def bad_type_iff)
next
  assume a: "options ''type'' = Some (PStr (type_tag v)) \<and>
    (\<exists>x n. options ''name'' = Some x \<and> py_len x = Inr (Suc n)) \<and>
    set (extension_keys v) \<subseteq> dom options"
  then have n: "bad_name options = Inr False"
    using bad_name_Some [of options] by fastforce
  from a have t: "\<not> bad_type options (type_tag v)"
    by (simp add: bad_type_iff)
  from a have r: "set (extension_keys v) \<subseteq> dom options" by simp
  show "snd (init_of v self options) = None"
    by (simp add: init_of_checked checked_init_pass [OF t n r])
next
  fix e assume "snd (init_of v self options) = Some e"
  then show "fst (init_of v self options) = self"
    by (simp add: init_of_checked checked_init_fail)
qed

theorem net_validation_order_witness:
  "vlan_options ''type'' = Some (PStr ''vlan'') \<and>
   vlan_options ''name'' = Some (PStr ''eth0.5'') \<and>
   \<not> {''vlan_id'', ''vlan_link''} \<subseteq> dom vlan_options \<and>
   VlanAction_init Map.empty vlan_options =
     (Map.empty, Some (Exception ''VlanAction requires vlan_id and vlan_link attr'')) \<and>
   VlanAction_init Map.empty (vlan_options(''type'' \<mapsto> PStr ''bond'')) =
     (Map.empty, Some (Exception ''Invalid type for VlanAction'')) \<and>
   VlanAction_init Map.empty (vlan_options(''name'' \<mapsto> PStr '''')) =
     (Map.empty, Some (Exception ''Invalid name for VlanAction'')) \<and>
   snd (VlanAction_init Map.empty (vlan_options(''vlan_link'' \<mapsto> PStr ''eth0''))) = None"
proof -
  have t: "vlan_options ''type'' = Some (PStr ''vlan'')"
    by (simp add: vlan_options_def)
  have n: "vlan_options ''name'' = Some (PStr ''eth0.5'')"
    by (simp add: vlan_options_def)
  have r: "\<not> {''vlan_id'', ''vlan_link''} \<subseteq> dom vlan_options"
    by (simp add: vlan_options_def)
  have r': "{''vlan_id'', ''vlan_link''} \<subseteq> dom (vlan_options(''vlan_link'' \<mapsto> PStr ''eth0''))"
    by (simp add: vlan_options_def)
  have c1: "VlanAction_init Map.empty vlan_options =
     (Map.empty, Some (Exception ''VlanAction requires vlan_id and vlan_link attr''))"
    using net_validation_order [of vlan_options Vlan Map.empty] t n r by simp
  have c2: "VlanAction_init Map.empty (vlan_options(''type'' \<mapsto> PStr ''bond'')) =
     (Map.empty, Some (Exception ''Invalid type for VlanAction''))"
    using net_validation_order [of "vlan_options(''type'' \<mapsto> PStr ''bond'')" Vlan Map.empty]
    by simp
  have c3: "VlanAction_init Map.empty (vlan_options(''name'' \<mapsto> PStr '''')) =
     (Map.empty, Some (Exception ''Invalid name for VlanAction''))"
    using net_validation_order [of "vlan_options(''name'' \<mapsto> PStr '''')" Vlan Map.empty] t
    by simp
  have c4: "snd (VlanAction_init Map.empty (vlan_options(''vlan_link'' \<mapsto> PStr ''eth0''))) = None"
    using net_validation_order [of "vlan_options(''vlan_link'' \<mapsto> PStr ''eth0'')" Vlan Map.empty]
      t n r'
    by simp
  from t n r c1 c2 c3 c4 show ?thesis by simp
qed

text \<open>
  Claim C7. The mapping \<^verbatim>\<open>get\<close> returns for a network action that was constructed has
  as keys exactly the declared keys of the variant (the four base keys and the keys the
  variant adds) that were supplied in the option bag, each with the value supplied; any
  other option is absent.
\<close>

theorem net_get_keys:
  assumes "construct (init_of v) options = Inr self"
  shows "\<exists>m. NetAction_get self = Inr m \<and>
     dom m = set (base_keys @ extension_keys v) \<inter> dom options \<and>
     (\<forall>k \<in> dom m. m k = options k) \<and>
     (\<forall>k. k \<notin> set (base_keys @ extension_keys v) \<longrightarrow> m k = None)"
proof -
  from assms have "construct (checked_init (type_tag v) (class_name v) (extension_keys v)
      (requires_text v)) options = Inr self"
    by (simp only: init_of_checked)
  then have "self = options(''_action_keys'' \<mapsto> PList (map PStr (base_keys @ extension_keys v)))"
    by (rule checked_constructed)
  with declared_keys_not_private show ?thesis
    by (rule get_of_keys)
qed

theorem net_get_keys_witness:
  "construct (init_of Physical) physical_options =
     Inr (physical_options(''_action_keys'' \<mapsto>
       PList (map PStr (base_keys @ extension_keys Physical)))) \<and>
   (\<exists>m. NetAction_get (physical_options(''_action_keys'' \<mapsto>
       PList (map PStr (base_keys @ extension_keys Physical)))) = Inr m \<and>
     dom m = {''type'', ''name'', ''mac_address''} \<and>
     m ''name'' = Some (PStr ''eth0'') \<and> m ''mtu'' = None)"
proof -
  have t: "\<not> bad_type physical_options ''physical''"
    by (simp add: bad_type_iff physical_options_def)
  have n: "bad_name physical_options = Inr False"
    by (simp add: bad_name_def physical_options_def)
  have r: "set [''mac_address''] \<subseteq> dom physical_options"
    by (simp add: physical_options_def)
  have c: "construct (init_of Physical) physical_options =
     Inr (physical_options(''_action_keys'' \<mapsto>
       PList (map PStr (base_keys @ extension_keys Physical))))"
    by (simp add: init_of_checked construct_def checked_init_pass [OF t n r])
  have d: "set (base_keys @ extension_keys Physical) \<inter> dom physical_options =
      {''type'', ''name'', ''mac_address''}"
    by (auto simp: base_keys_def physical_options_def)
  have nm: "physical_options ''name'' = Some (PStr ''eth0'')"
    by (simp add: physical_options_def)
  have mtu: "''mtu'' \<notin> set (base_keys @ extension_keys Physical)"
    by (simp add: base_keys_def)
  from net_get_keys [OF c] obtain m where
    m: "NetAction_get (physical_options(''_action_keys'' \<mapsto>
          PList (map PStr (base_keys @ extension_keys Physical)))) = Inr m"
      "dom m = set (base_keys @ extension_keys Physical) \<inter> dom physical_options"
      "\<forall>k \<in> dom m. m k = physical_options k"
      "\<forall>k. k \<notin> set (base_keys @ extension_keys Physical) \<longrightarrow> m k = None"
    by blast
  from m(2) d have dm: "dom m = {''type'', ''name'', ''mac_address''}" by simp
  then have "''name'' \<in> dom m" by simp
  with m(3) nm have "m ''name'' = Some (PStr ''eth0'')" by auto
  moreover from m(4) mtu have "m ''mtu'' = None" by blast
  ultimately show ?thesis using c m(1) dm by blast
qed

text \<open>
  Claim C8, as stated, fails on its last part: a partition number that is a string but
  not an integer literal makes \<^verbatim>\<open>int\<close> raise a value error, not a type error.
\<close>

theorem non_numeric_string_raises_value_error:
  "PartitionAction_init sda (PStr ''abc'') (PInt 0) (PInt 1048576) PNone = Inl ValueError"
  by code_simp

text \<open>
  Claim C8, amended. The constructor of a partition turns \<^verbatim>\<open>partnum\<close>, \<^verbatim>\<open>offset\<close> and
  \<^verbatim>\<open>size\<close> into integers with \<^verbatim>\<open>int\<close>, in this order, and the first one \<^verbatim>\<open>int\<close> rejects
  decides the error: a type error for \<^verbatim>\<open>None\<close> or a list, a value error for a string
  that is not an integer literal; an integer or a boolean is never rejected. Of a
  partition that was constructed, \<^verbatim>\<open>get\<close> renders the size as \<open>str(int(size)) + "B"\<close>
  and the offset as \<open>str(int(offset)) + "B"\<close>.
\<close>

theorem partition_coercion:
  "(PartitionAction_init par pnum off sz fl = Inr self \<longrightarrow>
      (\<exists>n off' sz' m. py_int pnum = Inr n \<and> py_int off = Inr off' \<and> py_int sz = Inr sz' \<and>
         partnum self = n \<and> part_offset self = off' \<and> part_size self = sz' \<and>
         get self = Inr m \<and>
         m ''size'' = Some (PStr (py_str (PInt sz') @ ''B'')) \<and>
         m ''offset'' = Some (PStr (py_str (PInt off') @ ''B'')) \<and>
         m ''number'' = Some (PInt n))) \<and>
   (\<forall>e. py_int pnum = Inl e \<longrightarrow> PartitionAction_init par pnum off sz fl = Inl e) \<and>
   (\<forall>n e. py_int pnum = Inr n \<and> py_int off = Inl e \<longrightarrow>
      PartitionAction_init par pnum off sz fl = Inl e) \<and>
   (\<forall>n off' e. py_int pnum = Inr n \<and> py_int off = Inr off' \<and> py_int sz = Inl e \<longrightarrow>
      PartitionAction_init par pnum off sz fl = Inl e) \<and>
   (\<forall>v e. py_int v = Inl e \<longrightarrow>
      (e = TypeError \<and> (v = PNone \<or> (\<exists>xs. v = PList xs))) \<or>
      (e = ValueError \<and> (\<exists>s. v = PStr s))) \<and>
   (\<forall>i. py_int (PInt i) = Inr i) \<and> (\<forall>b. py_int (PBool b) = Inr (if b then 1 else 0))"
  using py_int_error
  by (auto simp: PartitionAction_init_def PartitionAction_get_def split: sum.splits if_splits)

theorem partition_coercion_witness:
  "PartitionAction_init sda (PInt 1) (PInt 0) (PInt 1048576) PNone = Inr sda1 \<and>
   (\<exists>m. get sda1 = Inr m \<and> m ''size'' = Some (PStr ''1048576B'') \<and>
      m ''offset'' = Some (PStr ''0B'') \<and> m ''number'' = Some (PInt 1)) \<and>
   PartitionAction_init sda PNone (PInt 0) (PInt 1048576) PNone = Inl TypeError \<and>
   PartitionAction_init sda (PInt 1) (PList []) (PInt 1048576) PNone = Inl TypeError \<and>
   PartitionAction_init sda (PInt 1) (PInt 0) PNone PNone = Inl TypeError"
proof -
  have s: "str_int 1048576 = ''1048576''"
    by (simp add: str_int_def str_nat.simps digit_char_def)
  have c: "PartitionAction_init sda (PInt 1) (PInt 0) (PInt 1048576) PNone = Inr sda1"
    by (simp add: PartitionAction_init_def sda_def sda1_def str_int_1)
  have g: "\<exists>m. get sda1 = Inr m \<and> m ''size'' = Some (PStr ''1048576B'') \<and>
      m ''offset'' = Some (PStr ''0B'') \<and> m ''number'' = Some (PInt 1)"
    using partition_coercion [of sda "PInt 1" "PInt 0" "PInt 1048576" PNone sda1] c
    by (auto simp: s str_int_0 sda1_def)
  have e1: "PartitionAction_init sda PNone (PInt 0) (PInt 1048576) PNone = Inl TypeError"
    using partition_coercion [of sda PNone "PInt 0" "PInt 1048576" PNone sda1] by simp
  have e2: "PartitionAction_init sda (PInt 1) (PList []) (PInt 1048576) PNone = Inl TypeError"
    using partition_coercion [of sda "PInt 1" "PList []" "PInt 1048576" PNone sda1] by simp
  have e3: "PartitionAction_init sda (PInt 1) (PInt 0) PNone PNone = Inl TypeError"
    using partition_coercion [of sda "PInt 1" "PInt 0" PNone PNone sda1] by simp
  from c g e1 e2 e3 show ?thesis by simp
qed

text \<open>
  Claim C10. The mapping a disk serializes to has the key \<^verbatim>\<open>wipe\<close> if and only if the
  \<^verbatim>\<open>wipe\<close> argument is truthy, and then with the value given; with a falsy value, the
  empty string, \<^verbatim>\<open>False\<close> or \<^verbatim>\<open>None\<close> among them, the mapping is the one of a disk
  built without the argument.
\<close>

theorem disk_wipe_key:
  "\<exists>self m. DiskAction_init a model serial ptable wipe = Inr self \<and> get self = Inr m \<and>
     (''wipe'' \<in> dom m \<longleftrightarrow> truthy wipe) \<and>
     (truthy wipe \<longrightarrow> m ''wipe'' = Some wipe) \<and>
     (\<not> truthy wipe \<longrightarrow>
        (\<exists>d. DiskAction_init a model serial ptable PNone = Inr d \<and> get d = Inr m)) \<and>
     \<not> truthy (PStr '''') \<and> \<not> truthy (PBool False) \<and> \<not> truthy PNone"
  by (auto simp: DiskAction_init_def DiskAction_get_def Let_def)

theorem disk_wipe_key_witness:
  "truthy (PStr ''superblock'') \<and>
   (\<exists>self m. DiskAction_init (PStr ''sda'') PNone PNone (PStr ''gpt'') (PStr ''superblock'') =
        Inr self \<and> get self = Inr m \<and> m ''wipe'' = Some (PStr ''superblock'')) \<and>
   (\<exists>self m. DiskAction_init (PStr ''sda'') PNone PNone (PStr ''gpt'') (PStr '''') = Inr self \<and>
      get self = Inr m \<and> ''wipe'' \<notin> dom m) \<and>
   (\<exists>self m. DiskAction_init (PStr ''sda'') PNone PNone (PStr ''gpt'') (PBool False) = Inr self \<and>
      get self = Inr m \<and> ''wipe'' \<notin> dom m)"
proof -
  have t: "truthy (PStr ''superblock'')" by simp
  have f1: "\<not> truthy (PStr '''')" by simp
  have f2: "\<not> truthy (PBool False)" by simp
  from disk_wipe_key [of "PStr ''sda''" PNone PNone "PStr ''gpt''" "PStr ''superblock''"] t
  have c1: "\<exists>self m. DiskAction_init (PStr ''sda'') PNone PNone (PStr ''gpt'')
      (PStr ''superblock'') = Inr self \<and> get self = Inr m \<and>
      m ''wipe'' = Some (PStr ''superblock'')"
    by blast
  from disk_wipe_key [of "PStr ''sda''" PNone PNone "PStr ''gpt''" "PStr ''''"] f1
  have c2: "\<exists>self m. DiskAction_init (PStr ''sda'') PNone PNone (PStr ''gpt'') (PStr '''') =
      Inr self \<and> get self = Inr m \<and> ''wipe'' \<notin> dom m"
    by blast
  from disk_wipe_key [of "PStr ''sda''" PNone PNone "PStr ''gpt''" "PBool False"] f2
  have c3: "\<exists>self m. DiskAction_init (PStr ''sda'') PNone PNone (PStr ''gpt'') (PBool False) =
      Inr self \<and> get self = Inr m \<and> ''wipe'' \<notin> dom m"
    by blast
  from t c1 c2 c3 show ?thesis by blast
qed

end
